theory Spec2Isabelle
  imports Main "HOL-Library.Sublist"
begin

section \<open>The plugin entry point (main.ts)\<close>

text \<open>
  The plugin class of main.ts drives four collaborators whose code lives in other
  modules: the content aggregator, the language-model service, the mindmap generator
  and the persistence service. Their results are inputs of the model: each call either
  returns a value (\<open>Inr\<close>) or throws an error with a message (\<open>Inl\<close>). Everything
  the plugin does to the outside (notices, console output, calls of collaborators, files,
  views) is recorded in a trace of events, in the order in which it happens.
\<close>

subsection \<open>Settings and data\<close>

text \<open>The three values of outputFormat: 'note', 'view', 'both'.\<close>

datatype output_format = Note | View | Both

text \<open>The fields of PluginSettings that the modelled methods read.\<close>

record settings =
  apiKey :: string
  outputFormat :: output_format
  autoSave :: bool

text \<open>
  A processed content item. \<open>tags\<close> may be absent: extractAllTags reads it with
  optional chaining (\<open>content.tags?.forEach\<close>).
\<close>

record processed_content =
  filePath :: string
  tags :: "string list option"

text \<open>The response of the model service: \<open>success\<close>, \<open>structure\<close>, \<open>error\<close>.\<close>

record 'raw llm_response =
  success :: bool
  "structure" :: 'raw
  error :: string

subsection \<open>Events\<close>

text \<open>
  The notices of main.ts, one constructor per message text:
  \<^item> \<open>NoApiKey\<close>: "Please configure your API key in settings first"
  \<^item> \<open>Analyzing\<close>: "Analyzing content and generating mindmap..."
  \<^item> \<open>NoContent\<close>: "No content found in selection"
  \<^item> \<open>GenerationFailed e\<close>: "Failed to generate mindmap: e"
  \<^item> \<open>Generated n\<close>: "Mindmap generated successfully! (n sources processed)"
  \<^item> \<open>ErrorNotice m\<close>: "Error: m"
  \<^item> \<open>SavedAs f\<close>: "Mindmap saved as: f"
  \<^item> \<open>NeedTwoMindmaps\<close>: "You need at least 2 saved mindmaps to combine. Generate more
    mindmaps first!"
  \<^item> \<open>CombinerFailed m\<close>: "Failed to open mindmap combiner: m"
\<close>

datatype notice =
    NoApiKey
  | Analyzing
  | NoContent
  | GenerationFailed string
  | Generated nat
  | ErrorNotice string
  | SavedAs string
  | NeedTwoMindmaps
  | CombinerFailed string

datatype ('sel, 'raw, 'm) event =
    Notice notice
  | ConsoleLog string
  | ConsoleFound nat
  | ConsoleError string
  | ProcessSelection 'sel
  | GenerateMindmapStructure "processed_content list" "string list"
  | BuildStructure 'raw "processed_content list"
  | ConvertToMarkdown 'm
  | VaultCreate string string
  | GetLeaf
  | SetViewState 'm "string list"
  | RevealLeaf
  | GetAllMindmaps
  | ModalOpen

subsection \<open>Collaborators\<close>

text \<open>
  What the collaborators answer. \<open>timestamp\<close> is \<open>new Date().toISOString()\<close>.
  A call that returns nothing answers \<open>None\<close>, or \<open>Some m\<close> when it throws an error
  with message \<open>m\<close>.
\<close>

record ('sel, 'raw, 'm, 'saved) services =
  processSelection :: "'sel \<Rightarrow> string + processed_content list"
  generateMindmapStructure ::
    "processed_content list \<Rightarrow> string list \<Rightarrow> string + 'raw llm_response"
  buildStructure :: "'raw \<Rightarrow> processed_content list \<Rightarrow> settings \<Rightarrow> string + 'm"
  convertToMarkdown :: "'m \<Rightarrow> string + string"
  vaultCreate :: "string \<Rightarrow> string \<Rightarrow> string option"
  setViewState :: "'m \<Rightarrow> string list \<Rightarrow> string option"
  getAllMindmaps :: "string + 'saved list"
  modalOpen :: "string option"
  timestamp :: string

subsection \<open>extractAllTags\<close>

text \<open>
  A JavaScript \<open>Set\<close> keeps its elements in insertion order and \<open>add\<close> of an element
  already present changes nothing; \<open>Array.from\<close> lists the elements in that order.
  The set is a list without repetition.
\<close>

definition set_add :: "'a list \<Rightarrow> 'a \<Rightarrow> 'a list" where
  "set_add allTags tag = (if tag \<in> set allTags then allTags else allTags @ [tag])"

definition extractAllTags :: "processed_content list \<Rightarrow> string list" where
  "extractAllTags processedContent =
     foldl (\<lambda>allTags content.
              case tags content of
                None \<Rightarrow> allTags
              | Some ts \<Rightarrow> foldl set_add allTags ts)
       [] processedContent"

subsection \<open>displayMindmap and its two outputs\<close>

text \<open>
  The file name of createMindmapNote: the first 19 characters of the ISO timestamp,
  colons replaced by dashes, between "AI Mindmap - " and ".md".
\<close>

definition noteFileName :: "string \<Rightarrow> string" where
  "noteFileName isoString =
     ''AI Mindmap - '' @ map (\<lambda>c. if c = CHR '':'' then CHR ''-'' else c) (take 19 isoString) @ ''.md''"

text \<open>
  Each method returns the events it caused and, when it threw, the message of the error.
\<close>

definition createMindmapNote ::
  "('sel, 'raw, 'm, 'saved) services \<Rightarrow> settings \<Rightarrow> 'm
     \<Rightarrow> ('sel, 'raw, 'm) event list \<times> string option" where
  "createMindmapNote sv st struc =
     (let fileName = noteFileName (timestamp sv) in
      case convertToMarkdown sv struc of
        Inl e \<Rightarrow> ([ConvertToMarkdown struc], Some e)
      | Inr markdownContent \<Rightarrow>
          (case vaultCreate sv fileName markdownContent of
             Some e \<Rightarrow>
               ([ConvertToMarkdown struc, VaultCreate fileName markdownContent], Some e)
           | None \<Rightarrow>
               ([ConvertToMarkdown struc, VaultCreate fileName markdownContent]
                  @ (if autoSave st then [Notice (SavedAs fileName)] else []),
                None)))"

definition openVisualMindmapView ::
  "('sel, 'raw, 'm, 'saved) services \<Rightarrow> 'm \<Rightarrow> string list
     \<Rightarrow> ('sel, 'raw, 'm) event list \<times> string option" where
  "openVisualMindmapView sv struc sourceFiles =
     (case setViewState sv struc sourceFiles of
        Some e \<Rightarrow> ([GetLeaf, SetViewState struc sourceFiles], Some e)
      | None \<Rightarrow> ([GetLeaf, SetViewState struc sourceFiles, RevealLeaf], None))"

definition displayMindmap ::
  "('sel, 'raw, 'm, 'saved) services \<Rightarrow> settings \<Rightarrow> 'm \<Rightarrow> string list
     \<Rightarrow> ('sel, 'raw, 'm) event list \<times> string option" where
  "displayMindmap sv st struc sourceFiles =
     (let (tr1, r1) =
            (if outputFormat st = Note \<or> outputFormat st = Both
             then createMindmapNote sv st struc else ([], None))
      in case r1 of
           Some e \<Rightarrow> (tr1, Some e)
         | None \<Rightarrow>
             (if outputFormat st = View \<or> outputFormat st = Both
              then (let (tr2, r2) = openVisualMindmapView sv struc sourceFiles
                    in (tr1 @ tr2, r2))
              else (tr1, None)))"

subsection \<open>generateMindmapFromSelection\<close>

text \<open>
  The body of the \<open>try\<close> block: the events, and the message of the error thrown, if any.
\<close>

definition generateBody ::
  "('sel, 'raw, 'm, 'saved) services \<Rightarrow> settings \<Rightarrow> 'sel
     \<Rightarrow> ('sel, 'raw, 'm) event list \<times> string option" where
  "generateBody sv st selection =
     (case processSelection sv selection of
        Inl e \<Rightarrow> ([Notice Analyzing, ProcessSelection selection], Some e)
      | Inr processedContent \<Rightarrow>
          if length processedContent = 0
          then ([Notice Analyzing, ProcessSelection selection, Notice NoContent], None)
          else
            (let allTags = extractAllTags processedContent;
                 tr2 = [Notice Analyzing, ProcessSelection selection,
                        GenerateMindmapStructure processedContent allTags]
             in case generateMindmapStructure sv processedContent allTags of
                  Inl e \<Rightarrow> (tr2, Some e)
                | Inr llmResponse \<Rightarrow>
                    if \<not> success llmResponse
                    then (tr2 @ [Notice (GenerationFailed (error llmResponse))], None)
                    else
                      (let tr3 = tr2 @ [BuildStructure (structure llmResponse) processedContent]
                       in case buildStructure sv (structure llmResponse) processedContent st of
                            Inl e \<Rightarrow> (tr3, Some e)
                          | Inr mindmapStructure \<Rightarrow>
                              (let sourceFiles = map filePath processedContent;
                                   (tr4, r4) = displayMindmap sv st mindmapStructure sourceFiles
                               in case r4 of
                                    Some e \<Rightarrow> (tr3 @ tr4, Some e)
                                  | None \<Rightarrow>
                                      (tr3 @ tr4
                                         @ [Notice (Generated (length processedContent))],
                                       None)))))"

text \<open>
  The whole method: the guard on the API key (the empty string is the only falsy
  string), then the \<open>try\<close> block, whose \<open>catch\<close> logs the error and shows it.
\<close>

definition generateMindmapFromSelection ::
  "('sel, 'raw, 'm, 'saved) services \<Rightarrow> settings \<Rightarrow> 'sel \<Rightarrow> ('sel, 'raw, 'm) event list" where
  "generateMindmapFromSelection sv st selection =
     (if apiKey st = [] then [Notice NoApiKey]
      else
        (case generateBody sv st selection of
           (tr, None) \<Rightarrow> tr
         | (tr, Some e) \<Rightarrow> tr @ [ConsoleError e, Notice (ErrorNotice e)]))"

subsection \<open>openMindmapCombiner\<close>

definition openMindmapCombiner ::
  "('sel, 'raw, 'm, 'saved) services \<Rightarrow> ('sel, 'raw, 'm) event list" where
  "openMindmapCombiner sv =
     (case getAllMindmaps sv of
        Inl e \<Rightarrow>
          [ConsoleLog ''Opening mindmap combiner modal...'', GetAllMindmaps,
           ConsoleError e, Notice (CombinerFailed e)]
      | Inr savedMindmaps \<Rightarrow>
          if length savedMindmaps < 2
          then [ConsoleLog ''Opening mindmap combiner modal...'', GetAllMindmaps,
                ConsoleFound (length savedMindmaps), Notice NeedTwoMindmaps]
          else
            (case modalOpen sv of
               Some e \<Rightarrow>
                 [ConsoleLog ''Opening mindmap combiner modal...'', GetAllMindmaps,
                  ConsoleFound (length savedMindmaps), ModalOpen,
                  ConsoleError e, Notice (CombinerFailed e)]
             | None \<Rightarrow>
                 [ConsoleLog ''Opening mindmap combiner modal...'', GetAllMindmaps,
                  ConsoleFound (length savedMindmaps), ModalOpen,
                  ConsoleLog ''Mindmap combiner modal opened successfully'']))"

subsection \<open>Reading a trace\<close>

text \<open>The four stages of generation, and the stage an event belongs to.\<close>

datatype stage = Aggregation | ModelCall | StructureBuilding | DisplaySave

fun stage_of :: "('sel, 'raw, 'm) event \<Rightarrow> stage option" where
  "stage_of (ProcessSelection _) = Some Aggregation"
| "stage_of (GenerateMindmapStructure _ _) = Some ModelCall"
| "stage_of (BuildStructure _ _) = Some StructureBuilding"
| "stage_of (ConvertToMarkdown _) = Some DisplaySave"
| "stage_of (VaultCreate _ _) = Some DisplaySave"
| "stage_of GetLeaf = Some DisplaySave"
| "stage_of (SetViewState _ _) = Some DisplaySave"
| "stage_of RevealLeaf = Some DisplaySave"
| "stage_of _ = None"

definition stages :: "('sel, 'raw, 'm) event list \<Rightarrow> stage list" where
  "stages tr = List.map_filter stage_of tr"

text \<open>The structures that a trace hands to the note or to the view.\<close>

fun shown :: "('sel, 'raw, 'm) event \<Rightarrow> 'm option" where
  "shown (ConvertToMarkdown m) = Some m"
| "shown (SetViewState m _) = Some m"
| "shown _ = None"

definition shown_values :: "('sel, 'raw, 'm) event list \<Rightarrow> 'm list" where
  "shown_values tr = List.map_filter shown tr"

fun notice_of :: "('sel, 'raw, 'm) event \<Rightarrow> notice option" where
  "notice_of (Notice n) = Some n"
| "notice_of _ = None"

definition notices :: "('sel, 'raw, 'm) event list \<Rightarrow> notice list" where
  "notices tr = List.map_filter notice_of tr"

text \<open>
  The shapes the stage sequence of the \<open>try\<close> block can take: aggregation alone,
  aggregation and the model call, or these two, structure building and then display
  events only.
\<close>

definition body_shape :: "stage list \<Rightarrow> bool" where
  "body_shape ss \<longleftrightarrow>
     ss = [Aggregation] \<or> ss = [Aggregation, ModelCall] \<or>
     (\<exists>ds. set ds \<subseteq> {DisplaySave} \<and> ss = Aggregation # ModelCall # StructureBuilding # ds)"

subsection \<open>Example collaborators\<close>

text \<open>
  Collaborators for concrete runs: the aggregator answers \<open>contents\<close>, the model
  answers \<open>response\<close>, building a structure adds one to the raw outline (a number
  here), and nothing throws.
\<close>

definition example_services ::
  "processed_content list \<Rightarrow> nat llm_response \<Rightarrow> nat \<Rightarrow> (unit, nat, nat, unit) services" where
  "example_services contents response saved =
     \<lparr> processSelection = (\<lambda>_. Inr contents),
       generateMindmapStructure = (\<lambda>_ _. Inr response),
       buildStructure = (\<lambda>raw _ _. Inr (Suc raw)),
       convertToMarkdown = (\<lambda>_. Inr ''# Map''),
       vaultCreate = (\<lambda>_ _. None),
       setViewState = (\<lambda>_ _. None),
       getAllMindmaps = Inr (replicate saved ()),
       modalOpen = None,
       timestamp = ''2024-01-02T03:04:05.678Z'' \<rparr>"

definition example_settings :: "string \<Rightarrow> settings" where
  "example_settings key = \<lparr> apiKey = key, outputFormat = Both, autoSave = True \<rparr>"

definition example_contents :: "processed_content list" where
  "example_contents =
     [\<lparr> filePath = ''a.md'', tags = Some [''x'', ''y'', ''x''] \<rparr>,
      \<lparr> filePath = ''b.md'', tags = None \<rparr>,
      \<lparr> filePath = ''c.md'', tags = Some [''y'', ''z''] \<rparr>]"

definition example_failed :: "nat llm_response" where
  "example_failed = \<lparr> success = False, structure = 0, error = ''quota exceeded'' \<rparr>"

definition example_ok :: "nat llm_response" where
  "example_ok = \<lparr> success = True, structure = 7, error = [] \<rparr>"

section \<open>The mindmap core\<close>

text \<open>
  main.ts imports the services that build, link, serialize and combine mindmaps from
  modules (\<open>./src/services/mindmapGenerator\<close>, \<open>./src/services/mindmapPersistence\<close>,
  \<open>./src/components/mindmapCombinerModal\<close>) whose code is not at hand. The definitions
  of this section are modelled from the written specification of these components; each
  says which component it stands for and which choices the specification leaves open.
\<close>

subsection \<open>Data model\<close>

text \<open>
  Modelled from the spec: the MindmapNode of section 3, absent from the sources.
  The fields are \<open>id\<close>, \<open>title\<close>, \<open>category\<close> (set only on depth-1 nodes),
  \<open>depth\<close>, \<open>tags\<close>, \<open>sourceRefs\<close>, \<open>children\<close> (ordered, owned) and
  \<open>secondaryParents\<close> (ids). Sets are lists whose order carries no meaning.
\<close>

datatype node =
  Node (node_id: nat) (title: string) (category: "string option") (depth: nat)
       (node_tags: "string list") (sourceRefs: "string list")
       (children: "node list") (secondaryParents: "nat list")

text \<open>
  Modelled from the spec: the Mindmap of section 3, absent from the sources. The
  category schema may be absent (the combiner has an error for that case).
\<close>

record mindmap =
  root :: node
  categorySchema :: "string list option"
  createdAt :: nat
  sourceFiles :: "string list"

text \<open>
  Modelled from the spec: the per-source processed content read by the core
  (section 4.2): source identifier, extracted tags, raw text length.
\<close>

record source_content =
  sourceId :: string
  sourceTags :: "string list"
  textLength :: nat

text \<open>
  Modelled from the spec: a node of the raw nested outline that the model service
  yields (sections 4.2 and 6): a title (absent when the entry is malformed), an optional
  category hint, optional tag hints and child nodes.
\<close>

datatype raw_node =
  Raw (raw_title: "string option") (raw_category: "string option")
      (raw_tags: "string list") (raw_children: "raw_node list")

text \<open>
  Modelled from the spec: part of the TagHierarchyResolver (section 4.1), absent from
  the sources: the three tag-weighting modes.
\<close>

datatype weighting = High | Medium | Low

subsection \<open>TagHierarchyResolver\<close>

text \<open>
  Modelled from the spec: part of the TagHierarchyResolver (section 4.1), absent from
  the sources: a blank character: space, tab, line feed or carriage return.
\<close>

definition is_space :: "char \<Rightarrow> bool" where
  "is_space c \<longleftrightarrow> c = CHR '' '' \<or> c = CHR 0x09 \<or> c = CHR 0x0A \<or> c = CHR 0x0D"

text \<open>
  Modelled from the spec: part of the TagHierarchyResolver (section 4.1), absent from
  the sources: an empty or whitespace-only text.
\<close>

definition blank :: "string \<Rightarrow> bool" where
  "blank s \<longleftrightarrow> list_all is_space s"

text \<open>
  Modelled from the spec: part of the TagHierarchyResolver (section 4.1), absent from
  the sources: the segments of a tag, separated by \<open>/\<close>.
\<close>

fun split_path :: "string \<Rightarrow> string list" where
  "split_path [] = [[]]"
| "split_path (c # cs) =
     (if c = CHR ''/'' then [] # split_path cs
      else (case split_path cs of
              [] \<Rightarrow> [[c]]
            | seg # segs \<Rightarrow> (c # seg) # segs))"

text \<open>
  Modelled from the spec: part of the TagHierarchyResolver (section 4.1), absent from
  the sources: matching is case-insensitive: letters A to Z are compared as a to z.
\<close>

definition lower_char :: "char \<Rightarrow> char" where
  "lower_char c =
     (case map_of (zip ''ABCDEFGHIJKLMNOPQRSTUVWXYZ'' ''abcdefghijklmnopqrstuvwxyz'') c of
        Some l \<Rightarrow> l
      | None \<Rightarrow> c)"

text \<open>
  Modelled from the spec: part of the TagHierarchyResolver (section 4.1), absent from
  the sources: a text with its letters in lower case.
\<close>

definition lower :: "string \<Rightarrow> string" where
  "lower s = map lower_char s"

text \<open>
  Modelled from the spec: part of the TagHierarchyResolver (section 4.1), absent from
  the sources: the suggested top-level category of a path: the schema entry that its
  first segment matches, if there is one.
\<close>

definition suggest :: "string list \<Rightarrow> string list \<Rightarrow> string option" where
  "suggest schema path =
     (case path of
        [] \<Rightarrow> None
      | seg # _ \<Rightarrow> find (\<lambda>c. lower c = lower seg) schema)"

text \<open>
  Modelled from the spec: part of the TagHierarchyResolver (section 4.1), absent from
  the sources: what the resolver gives for one tag: the tag, its path of segments, and
  the suggested category, if any.
\<close>

record resolved_tag =
  tag_text :: string
  tag_path :: "string list"
  suggestion :: "string option"

text \<open>
  Modelled from the spec: the TagHierarchyResolver of section 4.1, absent from the
  sources. An empty or whitespace-only tag is dropped; every other tag is kept with its
  path and its suggestion. The weighting mode is an input that the resolver does not use
  (it only matters to the StructureBuilder).
\<close>

definition TagHierarchyResolver ::
  "string list \<Rightarrow> weighting \<Rightarrow> string list \<Rightarrow> resolved_tag list" where
  "TagHierarchyResolver schema mode raw_tag_list =
     map (\<lambda>t. \<lparr> tag_text = t, tag_path = split_path t,
                 suggestion = suggest schema (split_path t) \<rparr>)
       (filter (\<lambda>t. \<not> blank t) raw_tag_list)"

subsection \<open>StructureBuilder\<close>

text \<open>
  Modelled from the spec: part of the StructureBuilder (section 4.2), absent from the
  sources: the first suggestion that the tags of a node give, in the order of the tags.
\<close>

definition tag_suggestion ::
  "string list \<Rightarrow> weighting \<Rightarrow> string list \<Rightarrow> string option" where
  "tag_suggestion schema mode tgs =
     (case List.map_filter suggestion (TagHierarchyResolver schema mode tgs) of
        [] \<Rightarrow> None
      | c # _ \<Rightarrow> Some c)"

text \<open>
  Modelled from the spec: part of the StructureBuilder (section 4.2), absent from the
  sources: the model's category hint, normalized into the schema: a hint that matches a
  schema entry (case-insensitive) becomes that entry; a blank hint counts as none.
\<close>

definition model_suggestion ::
  "string list \<Rightarrow> string option \<Rightarrow> string option" where
  "model_suggestion schema hint =
     (case hint of
        None \<Rightarrow> None
      | Some h \<Rightarrow>
          if blank h then None
          else (case find (\<lambda>c. lower c = lower h) schema of
                  Some c \<Rightarrow> Some c
                | None \<Rightarrow> Some h))"

text \<open>
  Modelled from the spec: part of the StructureBuilder (section 4.2), absent from the
  sources: the number of source files that corroborate a category: those with a tag
  whose first segment matches the category name.
\<close>

definition corroboration :: "source_content list \<Rightarrow> string \<Rightarrow> nat" where
  "corroboration sources c =
     length (filter (\<lambda>s. list_ex (\<lambda>t. \<not> blank t \<and>
                                      (case split_path t of
                                         [] \<Rightarrow> False
                                       | seg # _ \<Rightarrow> lower seg = lower c))
                           (sourceTags s)) sources)"

text \<open>
  Modelled from the spec: the category arbitration of section 4.2. \<open>High\<close>: the tag
  suggestion wins on conflict. \<open>Low\<close>: the model's suggestion wins, the tag suggestion
  is used only when the model gives none. \<open>Medium\<close>: the one with more corroborating
  source files wins. The specification leaves two cases open, which are settled here:
  with equal corroboration under \<open>Medium\<close> the model's suggestion is kept, and a node with
  no suggestion at all is its own category (its title).
\<close>

definition resolveCategory ::
  "weighting \<Rightarrow> string list \<Rightarrow> source_content list \<Rightarrow> string \<Rightarrow> string option
     \<Rightarrow> string list \<Rightarrow> string" where
  "resolveCategory mode schema sources ttl hint tgs =
     (case (tag_suggestion schema mode tgs, model_suggestion schema hint) of
        (None, None) \<Rightarrow> ttl
      | (Some t, None) \<Rightarrow> t
      | (None, Some m) \<Rightarrow> m
      | (Some t, Some m) \<Rightarrow>
          if t = m then t
          else (case mode of
                  High \<Rightarrow> t
                | Low \<Rightarrow> m
                | Medium \<Rightarrow>
                    if corroboration sources m < corroboration sources t then t else m))"

text \<open>
  Modelled from the spec: part of the StructureBuilder (section 4.2), absent from the
  sources: the tags kept on a node: the tag hints that are not blank, each once.
\<close>

definition clean_tags :: "string list \<Rightarrow> string list" where
  "clean_tags tgs = foldl set_add [] (filter (\<lambda>t. \<not> blank t) tgs)"

text \<open>
  Modelled from the spec: part of the StructureBuilder (section 4.2), absent from the
  sources: the sources attributed to a node: those with a tag equal to the node's title
  or to one of its tags (the raw text of a source is opaque to the core). A node that no
  source accounts for is kept, with the marker "unattributed".
\<close>

definition attribute ::
  "source_content list \<Rightarrow> string \<Rightarrow> string list \<Rightarrow> string list" where
  "attribute sources ttl tgs =
     (let refs = map sourceId
                   (filter (\<lambda>s. list_ex (\<lambda>t. t = ttl \<or> t \<in> set tgs) (sourceTags s)) sources)
      in if refs = [] then [''unattributed''] else refs)"

text \<open>
  Modelled from the spec: part of the StructureBuilder (section 4.2), absent from the
  sources: the nodes below depth 1, depth-first in outline order. Ids are given in the
  order of creation, starting from \<open>i\<close>; the result holds the next free id.
  An entry without a title is treated as absent, with everything below it.
\<close>

fun build_sub ::
  "source_content list \<Rightarrow> nat \<Rightarrow> nat \<Rightarrow> raw_node list \<Rightarrow> node list \<times> nat" where
  "build_sub sources d i [] = ([], i)"
| "build_sub sources d i (Raw t c tg ch # rest) =
     (case t of
        None \<Rightarrow> build_sub sources d i rest
      | Some ttl \<Rightarrow>
          (case build_sub sources (Suc d) (Suc i) ch of
             (kids, j) \<Rightarrow>
               (case build_sub sources d j rest of
                  (sibs, k) \<Rightarrow>
                    (Node i ttl None d (clean_tags tg)
                       (attribute sources ttl (clean_tags tg)) kids [] # sibs, k))))"

text \<open>
  Modelled from the spec: part of the StructureBuilder (section 4.2), absent from the
  sources: the depth-1 nodes: as above, and each gets its category, which is appended to
  the schema when the schema does not hold it yet.
\<close>

fun build_top ::
  "weighting \<Rightarrow> source_content list \<Rightarrow> string list \<Rightarrow> nat \<Rightarrow> raw_node list
     \<Rightarrow> node list \<times> string list \<times> nat" where
  "build_top mode sources schema i [] = ([], schema, i)"
| "build_top mode sources schema i (r # rest) =
     (case raw_title r of
        None \<Rightarrow> build_top mode sources schema i rest
      | Some ttl \<Rightarrow>
          (let tgs = clean_tags (raw_tags r);
               cat = resolveCategory mode schema sources ttl (raw_category r) tgs;
               schema' = (if cat \<in> set schema then schema else schema @ [cat])
           in case build_sub sources 2 (Suc i) (raw_children r) of
                (kids, j) \<Rightarrow>
                  (case build_top mode sources schema' j rest of
                     (sibs, schema'', k) \<Rightarrow>
                       (Node i ttl (Some cat) 1 tgs (attribute sources ttl tgs) kids [] # sibs,
                        schema'', k))))"

text \<open>
  Modelled from the spec: part of the StructureBuilder (section 4.2), absent from the
  sources: an outline entry has a title, or some entry below it has one.
\<close>

fun has_title :: "raw_node \<Rightarrow> bool" where
  "has_title (Raw t c tg ch) = (t \<noteq> None \<or> list_ex has_title ch)"

text \<open>
  Modelled from the spec: part of the StructureBuilder (section 4.2), absent from the
  sources: the error of an outline without any title.
\<close>

datatype structure_error = StructureError

text \<open>
  Modelled from the spec: the StructureBuilder of section 4.2, absent from the sources.
  It fails only when the raw outline has no title at all; otherwise it yields the tree
  under a root of depth 0 and id 0 without a title, and the schema with the categories
  that were added.
\<close>

definition StructureBuilder ::
  "weighting \<Rightarrow> string list \<Rightarrow> source_content list \<Rightarrow> nat \<Rightarrow> raw_node list
     \<Rightarrow> structure_error + mindmap" where
  "StructureBuilder mode schema sources now outline =
     (if \<not> list_ex has_title outline then Inl StructureError
      else (case build_top mode sources schema 1 outline of
              (kids, schema', k) \<Rightarrow>
                Inr \<lparr> root = Node 0 [] None 0 [] [] kids [],
                      categorySchema = Some schema',
                      createdAt = now,
                      sourceFiles = map sourceId sources \<rparr>))"


subsection \<open>Serializer: rendering\<close>

text \<open>
  Modelled from the spec: the Serializer of section 4.4, absent from the sources. The
  specification fixes the rules and names the concrete signs only as examples; the model
  takes the examples: a node is one line; the indentation is two spaces per level of
  depth; a depth-1 line carries the heading marker \<open>#\<close>, every deeper line the list
  marker \<open>-\<close>; a secondary parent is the trailing annotation \<open>[ALSO: title]\<close>. The
  root is not rendered.
\<close>

datatype marker = Heading | Bullet


text \<open>
  Modelled from the spec: part of rendering by the Serializer (section 4.4), absent from
  the sources: the text of a marker, with the space that follows it.
\<close>

fun marker_text :: "marker \<Rightarrow> string" where
  "marker_text Heading = ''# ''"
| "marker_text Bullet = ''- ''"


text \<open>
  Modelled from the spec: part of rendering by the Serializer (section 4.4), absent from
  the sources: the opening of an annotation, with the space that separates it from the
  text before.
\<close>

definition also_open :: string where
  "also_open = '' [ALSO: ''"


text \<open>
  Modelled from the spec: part of rendering by the Serializer (section 4.4), absent from
  the sources: all nodes of a tree, the node itself first, then depth-first in child
  order.
\<close>

fun nodes_of :: "node \<Rightarrow> node list" where
  "nodes_of (Node i t c d tg sr ch sp) =
     Node i t c d tg sr ch sp # concat (map nodes_of ch)"






text \<open>
  Modelled from the spec: part of rendering by the Serializer (section 4.4), absent from
  the sources: the line break.
\<close>

definition newline :: char where
  "newline = CHR 0x0A"





subsection \<open>Serializer: parsing\<close>


text \<open>
  Modelled from the spec: part of parsing by the Serializer (section 4.4), absent from
  the sources: the warnings that do not stop processing: an annotation that names no
  node of the document, and a depth-1 node placed in the fallback category.
\<close>

datatype warning = DroppedAnnotation string | FallbackUncategorized string



text \<open>
  Modelled from the spec: part of parsing by the Serializer (section 4.4), absent from
  the sources: the first occurrence of a pattern in a text: the text before it and the
  text after it.
\<close>

fun split_at_sub :: "string \<Rightarrow> string \<Rightarrow> (string \<times> string) option" where
  "split_at_sub pat [] = (if pat = [] then Some ([], []) else None)"
| "split_at_sub pat (c # cs) =
     (if prefix pat (c # cs) then Some ([], drop (length pat) (c # cs))
      else (case split_at_sub pat cs of
              None \<Rightarrow> None
            | Some (before, after) \<Rightarrow> Some (c # before, after)))"












text \<open>
  A title that one line can carry: it holds no line break and no opening of an
  annotation.
\<close>

definition title_ok :: "string \<Rightarrow> bool" where
  "title_ok t \<longleftrightarrow> newline \<notin> set t \<and> split_at_sub also_open t = None"

text \<open>
  A tree as the StructureBuilder leaves it: the depth of a node is its level, and no
  node has a secondary parent.
\<close>

fun built_at :: "nat \<Rightarrow> node \<Rightarrow> bool" where
  "built_at d (Node i t c dd tg sr ch sp) =
     (dd = d \<and> sp = [] \<and> list_all (built_at (Suc d)) ch)"


text \<open>
  Outlines for concrete runs: one with plain titles, one with a line break inside a
  title, and one with a title that reads like an annotation.
\<close>

definition example_outline :: "raw_node list" where
  "example_outline =
     [Raw (Some ''Frontend'') (Some ''Tech'') []
        [Raw (Some ''React'') None [] [], Raw (Some ''State Management'') None [] []],
      Raw (Some ''Backend'') (Some ''Tech'') [] [Raw (Some ''API Design'') None [] []]]"



text \<open>The mindmaps that the StructureBuilder makes of these outlines.\<close>

definition example_built :: mindmap where
  "example_built =
     \<lparr> root = Node 0 [] None 0 [] []
         [Node 1 ''Frontend'' (Some ''Tech'') 1 [] [''unattributed'']
            [Node 2 ''React'' None 2 [] [''unattributed''] [] [],
             Node 3 ''State Management'' None 2 [] [''unattributed''] [] []] [],
          Node 4 ''Backend'' (Some ''Tech'') 1 [] [''unattributed'']
            [Node 5 ''API Design'' None 2 [] [''unattributed''] [] []] []] [],
       categorySchema = Some [''Tech''], createdAt = 0, sourceFiles = [] \<rparr>"




subsection \<open>MultiParentLinker\<close>

text \<open>
  Modelled from the spec: the ancestor/descendant exclusion of section 3. A secondary
  parent \<open>s\<close> of a node violates it when it is the node itself, one of its ancestors
  (\<open>anc\<close> holds their ids, the parent first) or one of its descendants.
\<close>

definition descendant_ids :: "node \<Rightarrow> nat list" where
  "descendant_ids n = map node_id (concat (map nodes_of (children n)))"

text \<open>
  Modelled from the spec: part of the data model (section 3), absent from the sources:
  the exclusion itself, for a node with the ids \<open>anc\<close> of its ancestors.
\<close>

definition violates :: "nat list \<Rightarrow> node \<Rightarrow> nat \<Rightarrow> bool" where
  "violates anc n s \<longleftrightarrow> s = node_id n \<or> s \<in> set anc \<or> s \<in> set (descendant_ids n)"

text \<open>
  The invariants of a tree with cross-links: no node is its own ancestor along the
  owning chain, and no secondary parent violates the exclusion.
\<close>

fun acyclic_at :: "nat list \<Rightarrow> node \<Rightarrow> bool" where
  "acyclic_at anc (Node i t c d tg sr ch sp) =
     (i \<notin> set anc \<and> list_all (acyclic_at (i # anc)) ch)"

fun links_ok :: "nat list \<Rightarrow> node \<Rightarrow> bool" where
  "links_ok anc (Node i t c d tg sr ch sp) =
     (list_all (\<lambda>s. \<not> violates anc (Node i t c d tg sr ch sp) s) sp
      \<and> list_all (links_ok (i # anc)) ch)"

text \<open>
  Modelled from the spec: part of the MultiParentLinker (section 4.3), absent from the
  sources: two nodes are related when they share a tag (case-insensitive) or their
  titles are similar. The measure of similarity is an input: the specification leaves
  the measure and its threshold open.
\<close>

definition share_tag :: "node \<Rightarrow> node \<Rightarrow> bool" where
  "share_tag a b \<longleftrightarrow> list_ex (\<lambda>t. lower t \<in> set (map lower (node_tags b))) (node_tags a)"

text \<open>
  Modelled from the spec: part of the MultiParentLinker (section 4.3), absent from the
  sources: two nodes are related when they share a tag or their titles are similar.
\<close>

definition related :: "(string \<Rightarrow> string \<Rightarrow> bool) \<Rightarrow> node \<Rightarrow> node \<Rightarrow> bool" where
  "related similar a b \<longleftrightarrow> share_tag a b \<or> similar (title a) (title b)"

text \<open>
  Modelled from the spec: part of the MultiParentLinker (section 4.3), absent from the
  sources: the nodes below the root in the order of discovery, each with its primary
  branch: the id of the depth-1 node it lies under.
\<close>

definition branch_entries :: "node \<Rightarrow> (nat \<times> node) list" where
  "branch_entries r =
     concat (map (\<lambda>b. map (\<lambda>n. (node_id b, n)) (nodes_of b)) (children r))"

text \<open>
  Modelled from the spec: part of the MultiParentLinker (section 4.3), absent from the
  sources: the primary branch of the node with a given id.
\<close>

definition branch_of :: "(nat \<times> node) list \<Rightarrow> nat \<Rightarrow> nat option" where
  "branch_of es i = map_of (map (\<lambda>(b, n). (node_id n, b)) es) i"

text \<open>
  Modelled from the spec: part of the MultiParentLinker (section 4.3), absent from the
  sources: the entries discovered after the node with id \<open>i\<close>.
\<close>

fun later_entries :: "nat \<Rightarrow> (nat \<times> node) list \<Rightarrow> (nat \<times> node) list" where
  "later_entries i [] = []"
| "later_entries i ((b, n) # es) = (if node_id n = i then es else later_entries i es)"

text \<open>
  Modelled from the spec: part of the MultiParentLinker (section 4.3), absent from the
  sources: the candidates of a node \<open>a\<close>: the related nodes of other primary
  branches that are discovered after \<open>a\<close>. The link is recorded on the node
  discovered first only.
\<close>

definition candidates ::
  "(string \<Rightarrow> string \<Rightarrow> bool) \<Rightarrow> (nat \<times> node) list \<Rightarrow> node \<Rightarrow> nat list" where
  "candidates similar es a =
     (case branch_of es (node_id a) of
        None \<Rightarrow> []
      | Some ba \<Rightarrow>
          map (\<lambda>(bb, b). node_id b)
            (filter (\<lambda>(bb, b). bb \<noteq> ba \<and> related similar a b)
               (later_entries (node_id a) es)))"

text \<open>
  Modelled from the spec: part of the MultiParentLinker (section 4.3), absent from the
  sources: linking one node and everything below it: each candidate that does not
  violate the exclusion is added to the secondary parents; a violating candidate is
  skipped.
\<close>

fun link_node ::
  "(string \<Rightarrow> string \<Rightarrow> bool) \<Rightarrow> (nat \<times> node) list \<Rightarrow> nat list \<Rightarrow> node \<Rightarrow> node" where
  "link_node similar es anc (Node i t c d tg sr ch sp) =
     Node i t c d tg sr (map (link_node similar es (i # anc)) ch)
       (foldl set_add sp
          (filter (\<lambda>s. \<not> violates anc (Node i t c d tg sr ch sp) s)
             (candidates similar es (Node i t c d tg sr ch sp))))"

text \<open>
  Modelled from the spec: the MultiParentLinker of section 4.3, absent from the sources.
  With the flag disabled the mindmap passes through unchanged.
\<close>

definition MultiParentLinker ::
  "(string \<Rightarrow> string \<Rightarrow> bool) \<Rightarrow> bool \<Rightarrow> mindmap \<Rightarrow> mindmap" where
  "MultiParentLinker similar enabled m =
     (if enabled
      then m\<lparr> root := link_node similar (branch_entries (root m)) [] (root m) \<rparr>
      else m)"

text \<open>A tree with tags for concrete runs, and a similarity that holds for equal titles.\<close>

definition example_tagged :: mindmap where
  "example_tagged =
     \<lparr> root = Node 0 [] None 0 [] []
         [Node 1 ''Frontend'' (Some ''Tech'') 1 [''ui''] [''a.md'']
            [Node 2 ''React'' None 2 [''ui'', ''State''] [''a.md''] [] [],
             Node 3 ''State Management'' None 2 [] [''a.md''] [] []] [],
          Node 4 ''Backend'' (Some ''Tech'') 1 [''api''] [''b.md'']
            [Node 5 ''Store'' None 2 [''state''] [''b.md''] [] [],
             Node 6 ''State Management'' None 2 [''UI''] [''b.md''] [] []] []] [],
       categorySchema = Some [''Tech''], createdAt = 0, sourceFiles = [''a.md'', ''b.md''] \<rparr>"

definition same_title :: "string \<Rightarrow> string \<Rightarrow> bool" where
  "same_title a b \<longleftrightarrow> lower a = lower b"

subsection \<open>MindmapCombiner\<close>

text \<open>
  Modelled from the spec: part of the MindmapCombiner (section 4.5), absent from the
  sources: the error of an input without a category schema.
\<close>

datatype combine_error = CombineError

text \<open>
  Modelled from the spec: part of the MindmapCombiner (section 4.5), absent from the
  sources: the category schema of an input, empty when absent.
\<close>

definition schema_of :: "mindmap \<Rightarrow> string list" where
  "schema_of m = (case categorySchema m of None \<Rightarrow> [] | Some s \<Rightarrow> s)"

text \<open>
  Modelled from the spec: part of the MindmapCombiner (section 4.5), absent from the
  sources: the union of the input schemas, in first-seen order.
\<close>

definition unified_schema :: "mindmap list \<Rightarrow> string list" where
  "unified_schema ms = foldl set_add [] (concat (map schema_of ms))"

text \<open>
  Modelled from the spec: part of the MindmapCombiner (section 4.5), absent from the
  sources: the name of the synthetic fallback category.
\<close>

definition uncategorized :: string where
  "uncategorized = ''Uncategorized''"

text \<open>
  Modelled from the spec: part of the MindmapCombiner (section 4.5), absent from the
  sources: the depth-1 nodes of all inputs, in the order of the inputs.
\<close>

definition depth1_nodes :: "mindmap list \<Rightarrow> node list" where
  "depth1_nodes ms = concat (map (\<lambda>m. children (root m)) ms)"

text \<open>
  Modelled from the spec: part of the MindmapCombiner (section 4.5), absent from the
  sources: a depth-1 node falls back when it has no category name that the schema holds.
\<close>

definition falls_back :: "string list \<Rightarrow> node \<Rightarrow> bool" where
  "falls_back schema n = (case category n of None \<Rightarrow> True | Some c \<Rightarrow> c \<notin> set schema)"

text \<open>
  Modelled from the spec: part of the MindmapCombiner (section 4.5), absent from the
  sources: the category under which a depth-1 node is placed: its own category when the
  unified schema holds it, and otherwise (a name that no schema holds, or no name at
  all) the fallback "Uncategorized".
\<close>

definition placement :: "string list \<Rightarrow> node \<Rightarrow> string" where
  "placement schema n =
     (case category n of
        None \<Rightarrow> uncategorized
      | Some c \<Rightarrow> if c \<in> set schema then c else uncategorized)"

text \<open>
  Modelled from the spec: part of the MindmapCombiner (section 4.5), absent from the
  sources: the categories of the combined tree: the unified schema, and the synthetic
  category only when some depth-1 node falls back and the schema does not hold that
  name.
\<close>

definition combined_categories :: "mindmap list \<Rightarrow> string list" where
  "combined_categories ms =
     unified_schema ms @
       (if list_ex (falls_back (unified_schema ms)) (depth1_nodes ms)
           \<and> uncategorized \<notin> set (unified_schema ms)
        then [uncategorized] else [])"

text \<open>
  Modelled from the spec: part of the MindmapCombiner (section 4.5), absent from the
  sources: grafting: the subtrees under the depth-1 nodes that are placed in category
  \<open>c\<close>, in the order of the inputs, each subtree as it is.
\<close>

definition category_members ::
  "string list \<Rightarrow> mindmap list \<Rightarrow> string \<Rightarrow> node list" where
  "category_members schema ms c = filter (\<lambda>n. placement schema n = c) (depth1_nodes ms)"

text \<open>
  Modelled from the spec: part of the MindmapCombiner (section 4.5), absent from the
  sources: the subtrees grafted under the unified node of a category.
\<close>

definition grafted ::
  "string list \<Rightarrow> mindmap list \<Rightarrow> string \<Rightarrow> node list" where
  "grafted schema ms c = concat (map children (category_members schema ms c))"

text \<open>
  Modelled from the spec: part of the MindmapCombiner (section 4.5), absent from the
  sources: a text without the blanks around it.
\<close>

definition trim :: "string \<Rightarrow> string" where
  "trim s = rev (dropWhile is_space (rev (dropWhile is_space s)))"

text \<open>
  Modelled from the spec: part of the MindmapCombiner (section 4.5), absent from the
  sources: a title normalized for comparison: surrounding blanks removed, case ignored.
\<close>

definition norm_title :: "string \<Rightarrow> string" where
  "norm_title t = lower (trim t)"

text \<open>
  Modelled from the spec: part of the MindmapCombiner (section 4.5), absent from the
  sources: the common tags are more than the threshold share of all tags of the two
  nodes.
\<close>

definition tag_overlap :: "nat \<Rightarrow> string list \<Rightarrow> string list \<Rightarrow> bool" where
  "tag_overlap threshold a b \<longleftrightarrow>
     threshold * length (remdups (a @ b)) < 100 * length (filter (\<lambda>t. t \<in> set b) (remdups a))"

text \<open>
  Modelled from the spec: part of the MindmapCombiner (section 4.5), absent from the
  sources: two nodes are duplicates when their normalized titles are equal or their
  common tags lie above the threshold, which is an input given in percent (the
  specification leaves the threshold open).
\<close>

definition duplicate :: "nat \<Rightarrow> node \<Rightarrow> node \<Rightarrow> bool" where
  "duplicate threshold a b \<longleftrightarrow>
     norm_title (title a) = norm_title (title b)
     \<or> tag_overlap threshold (node_tags a) (node_tags b)"

text \<open>
  Modelled from the spec: part of the MindmapCombiner (section 4.5), absent from the
  sources: a node is merged into the first duplicate among the nodes seen so far, or
  added at the end when there is none.
\<close>

fun merge_into ::
  "(node \<Rightarrow> node \<Rightarrow> node) \<Rightarrow> (node \<Rightarrow> node \<Rightarrow> bool) \<Rightarrow> node list \<Rightarrow> node \<Rightarrow> node list" where
  "merge_into mrg dup [] x = [x]"
| "merge_into mrg dup (y # ys) x =
     (if dup y x then mrg y x # ys else y # merge_into mrg dup ys x)"

text \<open>
  Modelled from the spec: part of the MindmapCombiner (section 4.5), absent from the
  sources: the height of a tree; a leaf has height 1.
\<close>

fun height :: "node \<Rightarrow> nat" where
  "height (Node i t c d tg sr ch sp) = Suc (foldr max (map height ch) 0)"

text \<open>
  Modelled from the spec: part of the MindmapCombiner (section 4.5), absent from the
  sources: deduplication of a list of sibling subtrees. Two duplicates become one node
  with the union of the source references, the union of the tags, and the children of
  both, deduplicated by the same rule one level down. Each level down uses one unit of
  \<open>fuel\<close>; the combiner gives the height of the forest, which is the number
  of levels.
\<close>

fun dedup :: "nat \<Rightarrow> nat \<Rightarrow> node list \<Rightarrow> node list" where
  "dedup 0 threshold ns = ns"
| "dedup (Suc fuel) threshold ns =
     foldl (merge_into
              (\<lambda>y x. Node (node_id y) (title y) (category y) (depth y)
                        (foldl set_add (node_tags y) (node_tags x))
                        (foldl set_add (sourceRefs y) (sourceRefs x))
                        (dedup fuel threshold (children y @ children x))
                        (secondaryParents y))
              (duplicate threshold))
       [] ns"

text \<open>
  Modelled from the spec: part of the MindmapCombiner (section 4.5), absent from the
  sources: the height of the highest tree of a list.
\<close>

definition forest_height :: "node list \<Rightarrow> nat" where
  "forest_height ns = foldr max (map height ns) 0"

text \<open>
  Modelled from the spec: part of the MindmapCombiner (section 4.5), absent from the
  sources: the unified node of a category: its title is the category name; it has the
  tags and source references of the depth-1 nodes placed in it (the marker
  "unattributed" when there is none) and owns the deduplicated grafted subtrees.
\<close>

definition category_node :: "nat \<Rightarrow> string list \<Rightarrow> mindmap list \<Rightarrow> string \<Rightarrow> node" where
  "category_node threshold schema ms c =
     (let members = category_members schema ms c;
          refs = foldl set_add [] (concat (map sourceRefs members))
      in Node 0 c (Some c) 1
           (foldl set_add [] (concat (map node_tags members)))
           (if refs = [] then [''unattributed''] else refs)
           (dedup (forest_height (grafted schema ms c)) threshold (grafted schema ms c))
           [])"

text \<open>
  Modelled from the spec: part of the MindmapCombiner (section 4.5), absent from the
  sources: the merged tree gets fresh ids in the order of discovery, and the cross-links
  of the inputs, which name ids of the inputs, are cleared before the linker runs again.
\<close>

fun renumber :: "nat \<Rightarrow> node list \<Rightarrow> node list \<times> nat" where
  "renumber i [] = ([], i)"
| "renumber i (Node _ t c d tg sr ch _ # rest) =
     (case renumber (Suc i) ch of
        (kids, j) \<Rightarrow>
          (case renumber j rest of
             (sibs, k) \<Rightarrow> (Node i t c d tg sr kids [] # sibs, k)))"

text \<open>
  Modelled from the spec: the MindmapCombiner of section 4.5, absent from the sources.
  It fails when an input has an empty or absent category schema. Otherwise it builds
  one node per category, grafts and deduplicates, numbers the nodes and runs the
  MultiParentLinker over the merged tree. Each use of the fallback category is reported
  as a warning.
\<close>

definition MindmapCombiner ::
  "(string \<Rightarrow> string \<Rightarrow> bool) \<Rightarrow> bool \<Rightarrow> nat \<Rightarrow> nat \<Rightarrow> mindmap list
     \<Rightarrow> combine_error + (mindmap \<times> warning list)" where
  "MindmapCombiner similar enabled threshold now ms =
     (if list_ex (\<lambda>m. categorySchema m = None \<or> categorySchema m = Some []) ms
      then Inl CombineError
      else
        (let schema = unified_schema ms;
             merged = map (category_node threshold schema ms) (combined_categories ms)
         in Inr (MultiParentLinker similar enabled
                   \<lparr> root = Node 0 [] None 0 [] [] (fst (renumber 1 merged)) [],
                     categorySchema = Some (combined_categories ms),
                     createdAt = now,
                     sourceFiles = foldl set_add [] (concat (map sourceFiles ms)) \<rparr>,
                 map (\<lambda>n. FallbackUncategorized (title n))
                   (filter (falls_back schema) (depth1_nodes ms)))))"


text \<open>Mindmaps for concrete runs of the combiner.\<close>

definition example_map_a :: mindmap where
  "example_map_a =
     \<lparr> root = Node 0 [] None 0 [] []
         [Node 1 ''Technological'' (Some ''Technological'') 1 [] [''a.md'']
            [Node 2 ''AI Research'' None 2 [''ai''] [''a.md''] [] []] []] [],
       categorySchema = Some [''Technological'', ''Economic''],
       createdAt = 0, sourceFiles = [''a.md''] \<rparr>"

definition example_map_b :: mindmap where
  "example_map_b =
     \<lparr> root = Node 0 [] None 0 [] []
         [Node 1 ''Economic'' (Some ''Economic'') 1 [] [''b.md'']
            [Node 2 ''Market Shift'' None 2 [''market''] [''b.md''] [] []] []] [],
       categorySchema = Some [''Technological'', ''Economic''],
       createdAt = 0, sourceFiles = [''b.md''] \<rparr>"





text \<open>What the combiner makes of these mindmaps.\<close>

definition example_combined_ab :: mindmap where
  "example_combined_ab =
     \<lparr> root = Node 0 [] None 0 [] []
         [Node 1 ''Technological'' (Some ''Technological'') 1 [] [''a.md'']
            [Node 2 ''AI Research'' None 2 [''ai''] [''a.md''] [] []] [],
          Node 3 ''Economic'' (Some ''Economic'') 1 [] [''b.md'']
            [Node 4 ''Market Shift'' None 2 [''market''] [''b.md''] [] []] []] [],
       categorySchema = Some [''Technological'', ''Economic''],
       createdAt = 7, sourceFiles = [''a.md'', ''b.md''] \<rparr>"


text \<open>
  A title that can also be named in an annotation: it holds no line break and no square
  bracket.
\<close>

definition title_plain :: "string \<Rightarrow> bool" where
  "title_plain t \<longleftrightarrow> newline \<notin> set t \<and> CHR ''['' \<notin> set t \<and> CHR '']'' \<notin> set t"








section \<open>Properties of the plugin entry point\<close>

subsection \<open>extractAllTags\<close>

lemma set_add_set: "set (set_add xs t) = insert t (set xs)"
  by (auto simp: set_add_def)

lemma set_add_distinct: "distinct xs \<Longrightarrow> distinct (set_add xs t)"
  by (auto simp: set_add_def)

lemma foldl_set_add_set: "set (foldl set_add xs ts) = set xs \<union> set ts"
  by (induction ts arbitrary: xs) (auto simp: set_add_set)

lemma foldl_set_add_distinct: "distinct xs \<Longrightarrow> distinct (foldl set_add xs ts)"
  by (induction ts arbitrary: xs) (auto simp: set_add_distinct)

lemma extract_loop_set:
  "t \<in> set (foldl (\<lambda>allTags content. case tags content of None \<Rightarrow> allTags
                     | Some ts \<Rightarrow> foldl set_add allTags ts) acc cs)
     \<longleftrightarrow> t \<in> set acc \<or> (\<exists>c ts. c \<in> set cs \<and> tags c = Some ts \<and> t \<in> set ts)"
  by (induction cs arbitrary: acc)
     (auto simp: foldl_set_add_set split: option.splits)

lemma extract_loop_distinct:
  "distinct acc \<Longrightarrow>
   distinct (foldl (\<lambda>allTags content. case tags content of None \<Rightarrow> allTags
                     | Some ts \<Rightarrow> foldl set_add allTags ts) acc cs)"
  by (induction cs arbitrary: acc)
     (auto simp: foldl_set_add_distinct split: option.splits)

text \<open>
  C8. The list returned by extractAllTags has no repeated tag, and a string is in it
  exactly when it is among the tags of some processed content; a content whose tags are
  absent contributes nothing.
\<close>

theorem extractAllTags_unique_and_complete:
  "distinct (extractAllTags cs) \<and>
   (t \<in> set (extractAllTags cs) \<longleftrightarrow>
      (\<exists>c ts. c \<in> set cs \<and> tags c = Some ts \<and> t \<in> set ts))"
  unfolding extractAllTags_def
  by (simp add: extract_loop_set extract_loop_distinct)

theorem extractAllTags_unique_and_complete_witness:
  "extractAllTags example_contents = [''x'', ''y'', ''z''] \<and>
   distinct (extractAllTags example_contents) \<and>
   ''z'' \<in> set (extractAllTags example_contents)"
  using extractAllTags_unique_and_complete [of example_contents "''z''"]
  by (simp add: extractAllTags_def example_contents_def set_add_def)

subsection \<open>generateMindmapFromSelection\<close>

lemma stages_append: "stages (a @ b) = stages a @ stages b"
  by (simp add: stages_def List.map_filter_def)

lemma stages_Cons:
  "stages (e # tr) = (case stage_of e of None \<Rightarrow> stages tr | Some s \<Rightarrow> s # stages tr)"
  by (simp add: stages_def List.map_filter_def split: option.splits)

lemma stages_Nil: "stages [] = []"
  by (simp add: stages_def List.map_filter_def)

lemma shown_values_append: "shown_values (a @ b) = shown_values a @ shown_values b"
  by (simp add: shown_values_def List.map_filter_def)

lemma shown_values_Cons:
  "shown_values (e # tr) =
     (case shown e of None \<Rightarrow> shown_values tr | Some s \<Rightarrow> s # shown_values tr)"
  by (simp add: shown_values_def List.map_filter_def split: option.splits)

lemma shown_values_Nil: "shown_values [] = []"
  by (simp add: shown_values_def List.map_filter_def)

lemma notices_Cons:
  "notices (e # tr) = (case notice_of e of None \<Rightarrow> notices tr | Some s \<Rightarrow> s # notices tr)"
  by (simp add: notices_def List.map_filter_def split: option.splits)

lemma notices_Nil: "notices [] = []"
  by (simp add: notices_def List.map_filter_def)

lemma displayMindmap_stages:
  "set (stages (fst (displayMindmap sv st m fs))) \<subseteq> {DisplaySave}"
  by (auto simp: displayMindmap_def createMindmapNote_def openVisualMindmapView_def
        stages_append stages_Cons stages_Nil Let_def
      split: prod.splits option.splits if_splits sum.splits)

lemma displayMindmap_shown:
  "set (shown_values (fst (displayMindmap sv st m fs))) \<subseteq> {m}"
  by (auto simp: displayMindmap_def createMindmapNote_def openVisualMindmapView_def
        shown_values_append shown_values_Cons shown_values_Nil Let_def
      split: prod.splits option.splits if_splits sum.splits)

lemma remdups_adj_all_same:
  "set xs \<subseteq> {a} \<Longrightarrow> remdups_adj xs = (if xs = [] then [] else [a])"
  by (induction xs rule: remdups_adj.induct) auto

lemma remdups_adj_tail_block:
  "set ys \<subseteq> {a} \<Longrightarrow> a \<noteq> b \<Longrightarrow>
   remdups_adj (b # ys) = b # (if ys = [] then [] else [a])"
  by (cases ys) (auto simp: remdups_adj_all_same)

lemma body_shape_prefix:
  "body_shape ss \<Longrightarrow>
   prefix (remdups_adj ss) [Aggregation, ModelCall, StructureBuilding, DisplaySave]"
  by (auto simp: body_shape_def remdups_adj_tail_block)

lemma generateBody_cases:
  obtains
    (aggregation_throws) e where
      "processSelection sv sel = Inl e"
      "generateBody sv st sel = ([Notice Analyzing, ProcessSelection sel], Some e)"
  | (no_content)
      "processSelection sv sel = Inr []"
      "generateBody sv st sel = ([Notice Analyzing, ProcessSelection sel, Notice NoContent], None)"
  | (model_throws) pc e where
      "processSelection sv sel = Inr pc" "pc \<noteq> []"
      "generateMindmapStructure sv pc (extractAllTags pc) = Inl e"
      "generateBody sv st sel =
         ([Notice Analyzing, ProcessSelection sel,
           GenerateMindmapStructure pc (extractAllTags pc)], Some e)"
  | (model_unsuccessful) pc r where
      "processSelection sv sel = Inr pc" "pc \<noteq> []"
      "generateMindmapStructure sv pc (extractAllTags pc) = Inr r" "\<not> success r"
      "generateBody sv st sel =
         ([Notice Analyzing, ProcessSelection sel,
           GenerateMindmapStructure pc (extractAllTags pc),
           Notice (GenerationFailed (error r))], None)"
  | (build_throws) pc r e where
      "processSelection sv sel = Inr pc" "pc \<noteq> []"
      "generateMindmapStructure sv pc (extractAllTags pc) = Inr r" "success r"
      "buildStructure sv (structure r) pc st = Inl e"
      "generateBody sv st sel =
         ([Notice Analyzing, ProcessSelection sel,
           GenerateMindmapStructure pc (extractAllTags pc),
           BuildStructure (structure r) pc], Some e)"
  | (displayed) pc r m tr4 r4 where
      "processSelection sv sel = Inr pc" "pc \<noteq> []"
      "generateMindmapStructure sv pc (extractAllTags pc) = Inr r" "success r"
      "buildStructure sv (structure r) pc st = Inr m"
      "displayMindmap sv st m (map filePath pc) = (tr4, r4)"
      "generateBody sv st sel =
         ([Notice Analyzing, ProcessSelection sel,
           GenerateMindmapStructure pc (extractAllTags pc),
           BuildStructure (structure r) pc] @ tr4 @
           (case r4 of None \<Rightarrow> [Notice (Generated (length pc))] | Some e \<Rightarrow> []), r4)"
proof (cases "processSelection sv sel")
  case (Inl e)
  then show ?thesis by (intro aggregation_throws[of e]) (simp_all add: generateBody_def)
next
  case (Inr pc)
  note pc = this
  show ?thesis
  proof (cases "pc = []")
    case True
    with pc show ?thesis by (intro no_content) (simp_all add: generateBody_def)
  next
    case False
    note ne = this
    show ?thesis
    proof (cases "generateMindmapStructure sv pc (extractAllTags pc)")
      case (Inl e)
      with pc ne show ?thesis
        by (intro model_throws[of pc e]) (simp_all add: generateBody_def Let_def)
    next
      case (Inr r)
      note r = this
      show ?thesis
      proof (cases "success r")
        case False
        with pc ne r show ?thesis
          by (intro model_unsuccessful[of pc r]) (simp_all add: generateBody_def Let_def)
      next
        case True
        note ok = this
        show ?thesis
        proof (cases "buildStructure sv (structure r) pc st")
          case (Inl e)
          with pc ne r ok show ?thesis
            by (intro build_throws[of pc r e]) (simp_all add: generateBody_def Let_def)
        next
          case (Inr m)
          obtain tr4 r4 where d: "displayMindmap sv st m (map filePath pc) = (tr4, r4)"
            by (cases "displayMindmap sv st m (map filePath pc)")
          with pc ne r ok Inr show ?thesis
            by (intro displayed[of pc r m tr4 r4])
               (simp_all add: generateBody_def Let_def split: option.splits)
        qed
      qed
    qed
  qed
qed

lemma body_stages: "body_shape (stages (fst (generateBody sv st sel)))"
proof (cases rule: generateBody_cases[of sv sel st])
  case (displayed pc r m tr4 r4)
  have "set (stages tr4) \<subseteq> {DisplaySave}"
    using displayMindmap_stages[of sv st m "map filePath pc"] displayed(6) by simp
  then show ?thesis
    using displayed(7)
    by (cases r4) (simp_all add: body_shape_def stages_Cons stages_Nil stages_append)
qed (simp_all add: body_shape_def stages_Cons stages_Nil)

lemma stages_generate:
  "stages (generateMindmapFromSelection sv st sel) =
     (if apiKey st = [] then [] else stages (fst (generateBody sv st sel)))"
  by (auto simp: generateMindmapFromSelection_def stages_Cons stages_Nil stages_append
      split: prod.splits option.splits)

lemma shown_generate:
  "shown_values (generateMindmapFromSelection sv st sel) =
     (if apiKey st = [] then [] else shown_values (fst (generateBody sv st sel)))"
  by (auto simp: generateMindmapFromSelection_def shown_values_Cons shown_values_Nil
        shown_values_append
      split: prod.splits option.splits)

lemma body_no_content:
  "processSelection sv sel = Inr [] \<Longrightarrow> stages (fst (generateBody sv st sel)) = [Aggregation]"
  by (simp add: generateBody_def stages_Cons stages_Nil)

lemma body_unsuccessful:
  assumes "processSelection sv sel = Inr pc"
    and "generateMindmapStructure sv pc (extractAllTags pc) = Inr r" and "\<not> success r"
  shows "set (stages (fst (generateBody sv st sel))) \<subseteq> {Aggregation, ModelCall}"
  using assms
  by (cases rule: generateBody_cases[of sv sel st]) (auto simp: stages_Cons stages_Nil)

lemma body_shown:
  assumes "m \<in> set (shown_values (fst (generateBody sv st sel)))"
  shows "\<exists>pc r. processSelection sv sel = Inr pc \<and> pc \<noteq> [] \<and>
           generateMindmapStructure sv pc (extractAllTags pc) = Inr r \<and> success r \<and>
           buildStructure sv (structure r) pc st = Inr m"
using assms
proof (cases rule: generateBody_cases[of sv sel st])
  case (displayed pc r m' tr4 r4)
  have "set (shown_values tr4) \<subseteq> {m'}"
    using displayMindmap_shown[of sv st m' "map filePath pc"] displayed(6) by simp
  with assms displayed(7) have "m = m'"
    by (cases r4) (auto simp: shown_values_Cons shown_values_Nil shown_values_append)
  with displayed show ?thesis by blast
qed (simp_all add: shown_values_Cons shown_values_Nil)

text \<open>
  C5. In every run of generateMindmapFromSelection the stages come in the fixed order
  aggregation, model call, structure building, display/save, none skipped and none
  repeated out of turn. When aggregation yields no item the model is not called. When
  the model's response is unsuccessful no structure is built and nothing is displayed
  or saved. Every structure handed to the note or to the view is the complete value
  that buildStructure returned for the successful response.
\<close>

theorem generate_stages_in_order:
  "prefix (remdups_adj (stages (generateMindmapFromSelection sv st sel)))
     [Aggregation, ModelCall, StructureBuilding, DisplaySave]
   \<and> (processSelection sv sel = Inr [] \<longrightarrow>
        ModelCall \<notin> set (stages (generateMindmapFromSelection sv st sel)))
   \<and> (\<forall>pc r. processSelection sv sel = Inr pc \<and>
         generateMindmapStructure sv pc (extractAllTags pc) = Inr r \<and> \<not> success r \<longrightarrow>
         StructureBuilding \<notin> set (stages (generateMindmapFromSelection sv st sel)) \<and>
         DisplaySave \<notin> set (stages (generateMindmapFromSelection sv st sel)))
   \<and> (\<forall>m \<in> set (shown_values (generateMindmapFromSelection sv st sel)).
         \<exists>pc r. processSelection sv sel = Inr pc \<and> pc \<noteq> [] \<and>
           generateMindmapStructure sv pc (extractAllTags pc) = Inr r \<and> success r \<and>
           buildStructure sv (structure r) pc st = Inr m)"
proof (intro conjI allI impI ballI)
  show "prefix (remdups_adj (stages (generateMindmapFromSelection sv st sel)))
     [Aggregation, ModelCall, StructureBuilding, DisplaySave]"
    using body_shape_prefix[OF body_stages[of sv st sel]] by (simp add: stages_generate)
next
  assume "processSelection sv sel = Inr []"
  then show "ModelCall \<notin> set (stages (generateMindmapFromSelection sv st sel))"
    by (simp add: stages_generate body_no_content)
next
  fix pc r
  assume a: "processSelection sv sel = Inr pc \<and>
         generateMindmapStructure sv pc (extractAllTags pc) = Inr r \<and> \<not> success r"
  then have "set (stages (fst (generateBody sv st sel))) \<subseteq> {Aggregation, ModelCall}"
    using body_unsuccessful[of sv sel pc r st] by blast
  then show "StructureBuilding \<notin> set (stages (generateMindmapFromSelection sv st sel))"
    and "DisplaySave \<notin> set (stages (generateMindmapFromSelection sv st sel))"
    by (auto simp: stages_generate)
next
  fix m assume "m \<in> set (shown_values (generateMindmapFromSelection sv st sel))"
  then show "\<exists>pc r. processSelection sv sel = Inr pc \<and> pc \<noteq> [] \<and>
           generateMindmapStructure sv pc (extractAllTags pc) = Inr r \<and> success r \<and>
           buildStructure sv (structure r) pc st = Inr m"
    using body_shown[of m sv st sel] by (simp add: shown_generate split: if_splits)
qed

lemmas example_defs = example_services_def example_settings_def example_contents_def
  example_failed_def example_ok_def

lemmas run_defs = generateMindmapFromSelection_def generateBody_def displayMindmap_def
  createMindmapNote_def openVisualMindmapView_def Let_def

theorem generate_stages_in_order_witness:
  "stages (generateMindmapFromSelection (example_services [] example_ok 0)
             (example_settings ''key'') ()) = [Aggregation]
   \<and> stages (generateMindmapFromSelection (example_services example_contents example_failed 0)
             (example_settings ''key'') ()) = [Aggregation, ModelCall]
   \<and> remdups_adj (stages (generateMindmapFromSelection
             (example_services example_contents example_ok 0) (example_settings ''key'') ()))
        = [Aggregation, ModelCall, StructureBuilding, DisplaySave]
   \<and> shown_values (generateMindmapFromSelection
             (example_services example_contents example_ok 0) (example_settings ''key'') ())
        = [8, 8]"
  using generate_stages_in_order [of "example_services [] example_ok 0" "example_settings ''key''" "()"]
    generate_stages_in_order [of "example_services example_contents example_failed 0"
      "example_settings ''key''" "()"]
    generate_stages_in_order [of "example_services example_contents example_ok 0"
      "example_settings ''key''" "()"]
  by (simp add: example_defs run_defs stages_Cons stages_Nil shown_values_Cons shown_values_Nil)

text \<open>
  C9. While the configured API key is the empty string, generateMindmapFromSelection
  shows one notice and does nothing else: the trace holds no aggregation, no model call,
  no structure building, no file and no view.
\<close>

theorem no_api_key_only_notice:
  "apiKey st = [] \<Longrightarrow> generateMindmapFromSelection sv st sel = [Notice NoApiKey]"
  by (simp add: generateMindmapFromSelection_def)

theorem no_api_key_only_notice_witness:
  "apiKey (example_settings []) = [] \<and>
   generateMindmapFromSelection (example_services example_contents example_ok 0)
     (example_settings []) () = [Notice NoApiKey]"
  using no_api_key_only_notice [of "example_settings []"
      "example_services example_contents example_ok 0" "()"]
  by (simp add: example_settings_def)

subsection \<open>openMindmapCombiner\<close>

text \<open>
  C10. When persistence holds fewer than two saved mindmaps, openMindmapCombiner never
  opens the combiner modal and the only thing shown is the notice asking for more
  mindmaps; a trace in which the modal is opened comes from at least two saved mindmaps.
\<close>

theorem combiner_needs_two_saved_mindmaps:
  "(\<forall>ms. getAllMindmaps sv = Inr ms \<and> length ms < 2 \<longrightarrow>
       ModalOpen \<notin> set (openMindmapCombiner sv) \<and>
       notices (openMindmapCombiner sv) = [NeedTwoMindmaps])
   \<and> (ModalOpen \<in> set (openMindmapCombiner sv) \<longrightarrow>
        (\<exists>ms. getAllMindmaps sv = Inr ms \<and> 2 \<le> length ms))"
  by (auto simp: openMindmapCombiner_def notices_Cons notices_Nil
      split: sum.splits option.splits if_splits)


theorem combiner_needs_two_saved_mindmaps_witness:
  "getAllMindmaps (example_services [] example_ok 1) = Inr [()] \<and>
   ModalOpen \<notin> set (openMindmapCombiner (example_services [] example_ok 1)) \<and>
   notices (openMindmapCombiner (example_services [] example_ok 1)) = [NeedTwoMindmaps] \<and>
   getAllMindmaps (example_services [] example_ok 2) = Inr [(), ()] \<and>
   ModalOpen \<in> set (openMindmapCombiner (example_services [] example_ok 2))"
  using combiner_needs_two_saved_mindmaps [of "example_services [] example_ok 1"]
    combiner_needs_two_saved_mindmaps [of "example_services [] example_ok 2"]
  by (simp add: example_services_def openMindmapCombiner_def notices_Cons notices_Nil
        numeral_2_eq_2)

section \<open>Properties of the mindmap core\<close>

subsection \<open>Category arbitration\<close>




lemma deeptech_path: "split_path ''deeptech/quantum-ai'' = [''deeptech'', ''quantum-ai'']"
  by simp
















subsection \<open>Rendering\<close>






lemma marker_text_cases: "marker_text m = ''# '' \<or> marker_text m = ''- ''"
  by (cases m) auto











subsection \<open>Round trip of the Serializer\<close>























lemma build_sub_built:
  "build_sub sources d i raws = (ns, k) \<Longrightarrow>
   list_all (built_at d) ns \<and> i \<le> k \<and> map node_id (concat (map nodes_of ns)) = [i..<k]"
proof (induction sources d i raws arbitrary: ns k rule: build_sub.induct)
  case (1 sources d i)
  then show ?case by simp
next
  case (2 sources d i t c tg ch rest)
  show ?case
  proof (cases t)
    case None
    with 2 show ?thesis by simp
  next
    case (Some ttl)
    obtain kids j where kj: "build_sub sources (Suc d) (Suc i) ch = (kids, j)"
      by (cases "build_sub sources (Suc d) (Suc i) ch")
    obtain sibs k' where sk: "build_sub sources d j rest = (sibs, k')"
      by (cases "build_sub sources d j rest")
    from "2.IH"(2)[OF Some kj] have a: "list_all (built_at (Suc d)) kids" "Suc i \<le> j"
      "map node_id (concat (map nodes_of kids)) = [Suc i..<j]" by simp_all
    from "2.IH"(3)[OF Some kj[symmetric] sk] have b: "list_all (built_at d) sibs" "j \<le> k'"
      "map node_id (concat (map nodes_of sibs)) = [j..<k']" by simp_all
    from "2.prems" Some kj sk have ns: "ns = Node i ttl None d (clean_tags tg)
         (attribute sources ttl (clean_tags tg)) kids [] # sibs" and k: "k = k'"
      by simp_all
    have "[i..<k'] = i # [Suc i..<j] @ [j..<k']"
    proof -
      have "i < k'" using a(2) b(2) by simp
      then have "[i..<k'] = i # [Suc i..<k']" by (rule upt_conv_Cons)
      moreover have "[Suc i..<k'] = [Suc i..<j] @ [j..<k']"
        using a(2) b(2) by (metis le_Suc_ex upt_add_eq_append)
      ultimately show ?thesis by simp
    qed
    then show ?thesis using a b by (simp add: ns k)
  qed
qed

lemma build_top_built:
  "build_top mode sources schema i raws = (ns, schema', k) \<Longrightarrow>
   list_all (built_at 1) ns \<and> i \<le> k \<and> map node_id (concat (map nodes_of ns)) = [i..<k]"
proof (induction raws arbitrary: schema i ns schema' k)
  case Nil
  then show ?case by simp
next
  case (Cons r rest)
  show ?case
  proof (cases "raw_title r")
    case None
    with Cons show ?thesis by simp
  next
    case (Some ttl)
    let ?tgs = "clean_tags (raw_tags r)"
    let ?cat = "resolveCategory mode schema sources ttl (raw_category r) ?tgs"
    let ?schema1 = "if ?cat \<in> set schema then schema else schema @ [?cat]"
    obtain kids j where kj: "build_sub sources 2 (Suc i) (raw_children r) = (kids, j)"
      by (cases "build_sub sources 2 (Suc i) (raw_children r)")
    obtain sibs schema2 k' where sk: "build_top mode sources ?schema1 j rest = (sibs, schema2, k')"
      by (cases "build_top mode sources ?schema1 j rest") auto
    from build_sub_built[OF kj] have a: "list_all (built_at (Suc 1)) kids" "Suc i \<le> j"
      "map node_id (concat (map nodes_of kids)) = [Suc i..<j]" by (simp_all add: numeral_2_eq_2)
    from Cons.IH[OF sk] have b: "list_all (built_at 1) sibs" "j \<le> k'"
      "map node_id (concat (map nodes_of sibs)) = [j..<k']" by simp_all
    from Cons.prems Some kj sk have ns: "ns = Node i ttl (Some ?cat) 1 ?tgs
         (attribute sources ttl ?tgs) kids [] # sibs" and k: "k = k'"
      by (simp_all add: Let_def)
    have "[i..<k'] = i # [Suc i..<j] @ [j..<k']"
    proof -
      have "i < k'" using a(2) b(2) by simp
      then have "[i..<k'] = i # [Suc i..<k']" by (rule upt_conv_Cons)
      moreover have "[Suc i..<k'] = [Suc i..<j] @ [j..<k']"
        using a(2) b(2) by (metis le_Suc_ex upt_add_eq_append)
      ultimately show ?thesis by simp
    qed
    then show ?thesis using a b by (simp add: ns k)
  qed
qed











text \<open>
  The linker keeps the ids of a tree.
\<close>

lemma link_node_id: "node_id (link_node similar es anc n) = node_id n"
  by (cases n) simp

lemma link_node_ids:
  "map node_id (nodes_of (link_node similar es anc n)) = map node_id (nodes_of n)"
proof (induction n arbitrary: anc)
  case (Node i t c d tg sr ch sp)
  have "map (\<lambda>k. map node_id (nodes_of (link_node similar es (i # anc) k))) ch
          = map (\<lambda>k. map node_id (nodes_of k)) ch"
    by (rule map_cong[OF refl]) (simp add: Node.IH)
  from arg_cong[OF this, of concat] show ?case by (simp add: map_concat comp_def)
qed

text \<open>
  The round trip of a tree with cross-links: annotations are parsed back and resolved
  by title.
\<close>

lemma split_at_sub_Some: "split_at_sub pat s = Some (a, b) \<Longrightarrow> s = a @ pat @ b"
proof (induction s arbitrary: a b)
  case Nil
  then show ?case by (simp split: if_splits)
next
  case (Cons c cs)
  show ?case
  proof (cases "prefix pat (c # cs)")
    case True
    with Cons.prems show ?thesis by (auto simp: prefix_def)
  next
    case False
    with Cons.prems obtain a' where "split_at_sub pat cs = Some (a', b)" "a = c # a'"
      by (auto split: option.splits)
    with Cons.IH show ?thesis by simp
  qed
qed

lemma title_plain_ok: "title_plain t \<Longrightarrow> title_ok t"
proof -
  assume p: "title_plain t"
  have "split_at_sub also_open t = None"
  proof (cases "split_at_sub also_open t")
    case None then show ?thesis .
  next
    case (Some ab)
    obtain a b where "ab = (a, b)" by (cases ab)
    with Some split_at_sub_Some[of also_open t a b] have "t = a @ also_open @ b" by simp
    then have "CHR ''['' \<in> set t" by (simp add: also_open_def)
    with p show ?thesis by (simp add: title_plain_def)
  qed
  with p show ?thesis by (simp add: title_ok_def title_plain_def)
qed



































lemma example_built_run:
  "StructureBuilder High [''Tech''] [] 0 example_outline = Inr example_built"
  by code_simp











subsection \<open>MultiParentLinker\<close>

lemma link_node_descendants:
  "descendant_ids (link_node similar es anc n) = descendant_ids n"
proof (cases n)
  case (Node i t c d tg sr ch sp)
  have "map (\<lambda>k. map node_id (nodes_of (link_node similar es (i # anc) k))) ch
          = map (\<lambda>k. map node_id (nodes_of k)) ch"
    by (rule map_cong[OF refl]) (simp add: link_node_ids)
  from arg_cong[OF this, of concat] show ?thesis
    by (simp add: Node descendant_ids_def map_concat comp_def)
qed

lemma violates_link_node:
  "violates anc (link_node similar es anc' n) s = violates anc n s"
  by (simp add: violates_def link_node_id link_node_descendants)

lemma link_node_acyclic:
  "acyclic_at anc n \<Longrightarrow> acyclic_at anc (link_node similar es anc n)"
  by (induction n arbitrary: anc) (simp add: list_all_iff)

lemma link_node_links_ok:
  "links_ok anc n \<Longrightarrow> links_ok anc (link_node similar es anc n)"
proof (induction n arbitrary: anc)
  case (Node i t c d tg sr ch sp)
  let ?n = "Node i t c d tg sr ch sp"
  have v: "violates anc (link_node similar es anc ?n) s = violates anc ?n s" for s
    by (rule violates_link_node)
  have kids: "list_all (links_ok (i # anc)) (map (link_node similar es (i # anc)) ch)"
    using Node by (simp add: list_all_iff)
  have old: "\<forall>s\<in>set sp. \<not> violates anc ?n s"
    using Node.prems by (simp add: list_all_iff)
  show ?case
    using kids old v by (auto simp: list_all_iff foldl_set_add_set)
qed

lemma link_node_keeps_links:
  "n' \<in> set (nodes_of (link_node similar es anc n)) \<Longrightarrow>
   \<exists>m \<in> set (nodes_of n). node_id m = node_id n' \<and> title m = title n' \<and>
      set (secondaryParents m) \<subseteq> set (secondaryParents n')"
proof (induction n arbitrary: anc)
  case (Node i t c d tg sr ch sp)
  then show ?case
    by (fastforce simp: foldl_set_add_set)
qed

lemma distinct_ids_acyclic:
  "distinct (map node_id (nodes_of n)) \<Longrightarrow> set anc \<inter> set (map node_id (nodes_of n)) = {} \<Longrightarrow>
   acyclic_at anc n"
proof (induction n arbitrary: anc)
  case (Node i t c d tg sr ch sp)
  have "acyclic_at (i # anc) k" if k: "k \<in> set ch" for k
  proof (rule Node.IH[OF k])
    from Node.prems(1) have "distinct (concat (map (\<lambda>k. map node_id (nodes_of k)) ch))"
      by (simp add: map_concat comp_def)
    with k show "distinct (map node_id (nodes_of k))"
      by (auto simp: distinct_concat_iff)
    from Node.prems(1) k have "i \<notin> set (map node_id (nodes_of k))" by auto
    moreover from Node.prems(2) k have "set anc \<inter> set (map node_id (nodes_of k)) = {}" by auto
    ultimately show "set (i # anc) \<inter> set (map node_id (nodes_of k)) = {}" by auto
  qed
  moreover from Node.prems(2) have "i \<notin> set anc" by auto
  ultimately show ?case by (simp add: list_all_iff)
qed

lemma built_at_links_ok: "built_at d n \<Longrightarrow> links_ok anc n"
  by (induction n arbitrary: d anc) (auto simp: list_all_iff)

lemma StructureBuilder_invariants:
  assumes "StructureBuilder mode schema sources now outline = Inr m"
  shows "acyclic_at [] (root m) \<and> links_ok [] (root m)"
proof -
  obtain kids schema' k where bt: "build_top mode sources schema 1 outline = (kids, schema', k)"
    by (cases "build_top mode sources schema 1 outline") auto
  with assms have rt: "root m = Node 0 [] None 0 [] [] kids []"
    by (auto simp: StructureBuilder_def split: if_splits)
  from build_top_built[OF bt] have kb: "\<forall>c\<in>set kids. built_at 1 c"
    and ids: "map node_id (concat (map nodes_of kids)) = [1..<k]"
    by (simp_all add: list_all_iff)
  have "map node_id (nodes_of (root m)) = 0 # [1..<k]"
    using ids by (simp add: rt)
  then have "distinct (map node_id (nodes_of (root m)))" by simp
  then have "acyclic_at [] (root m)" by (rule distinct_ids_acyclic) simp
  moreover have "links_ok [] (root m)"
    using kb built_at_links_ok[of 1] by (auto simp: rt list_all_iff violates_def)
  ultimately show ?thesis by simp
qed

lemma linker_preserves:
  assumes "acyclic_at [] (root m)" and "links_ok [] (root m)"
  shows "acyclic_at [] (root (MultiParentLinker similar enabled m)) \<and>
         links_ok [] (root (MultiParentLinker similar enabled m))"
  using assms by (simp add: MultiParentLinker_def link_node_acyclic link_node_links_ok)

lemma renumber_fresh:
  "renumber i ns = (ns', k) \<Longrightarrow>
   i \<le> k \<and> map node_id (concat (map nodes_of ns')) = [i..<k] \<and>
   (\<forall>n\<in>set ns'. \<forall>m\<in>set (nodes_of n). secondaryParents m = [])"
proof (induction i ns arbitrary: ns' k rule: renumber.induct)
  case (1 i)
  then show ?case by simp
next
  case (2 i uu t c d tg sr ch uv rest)
  obtain kids j where kj: "renumber (Suc i) ch = (kids, j)" by (cases "renumber (Suc i) ch")
  obtain sibs k' where sk: "renumber j rest = (sibs, k')" by (cases "renumber j rest")
  from "2.IH"(1)[OF kj] have a: "Suc i \<le> j"
    "map node_id (concat (map nodes_of kids)) = [Suc i..<j]"
    "\<forall>n\<in>set kids. \<forall>m\<in>set (nodes_of n). secondaryParents m = []" by simp_all
  from "2.IH"(2)[OF kj[symmetric] sk] have b: "j \<le> k'"
    "map node_id (concat (map nodes_of sibs)) = [j..<k']"
    "\<forall>n\<in>set sibs. \<forall>m\<in>set (nodes_of n). secondaryParents m = []" by simp_all
  from "2.prems" kj sk have ns: "ns' = Node i t c d tg sr kids [] # sibs" and k: "k = k'"
    by simp_all
  have "[i..<k'] = i # [Suc i..<j] @ [j..<k']"
  proof -
    have "i < k'" using a(1) b(1) by simp
    then have "[i..<k'] = i # [Suc i..<k']" by (rule upt_conv_Cons)
    moreover have "[Suc i..<k'] = [Suc i..<j] @ [j..<k']"
      using a(1) b(1) by (metis le_Suc_ex upt_add_eq_append)
    ultimately show ?thesis by simp
  qed
  then show ?case using a b by (auto simp: ns k)
qed

lemma unlinked_links_ok:
  "\<forall>m\<in>set (nodes_of n). secondaryParents m = [] \<Longrightarrow> links_ok anc n"
  by (induction n arbitrary: anc) (auto simp: list_all_iff)

lemma fresh_root_invariants:
  assumes "renumber 1 ns = (ns', k)"
  shows "acyclic_at [] (Node 0 [] None 0 [] [] ns' []) \<and> links_ok [] (Node 0 [] None 0 [] [] ns' [])"
proof -
  from renumber_fresh[OF assms] have ids: "map node_id (concat (map nodes_of ns')) = [1..<k]"
    and un: "\<forall>n\<in>set ns'. \<forall>m\<in>set (nodes_of n). secondaryParents m = []" by simp_all
  have "distinct (map node_id (nodes_of (Node 0 [] None 0 [] [] ns' [])))"
    using ids by simp
  then have "acyclic_at [] (Node 0 [] None 0 [] [] ns' [])"
    by (rule distinct_ids_acyclic) simp
  moreover have "links_ok [] (Node 0 [] None 0 [] [] ns' [])"
    by (rule unlinked_links_ok) (use un in auto)
  ultimately show ?thesis by simp
qed

lemma combiner_invariants:
  assumes "MindmapCombiner similar enabled th now ms = Inr (out, ws)"
  shows "acyclic_at [] (root out) \<and> links_ok [] (root out)"
proof -
  let ?merged = "map (category_node th (unified_schema ms) ms) (combined_categories ms)"
  obtain ns' k where rn: "renumber 1 ?merged = (ns', k)" by (cases "renumber 1 ?merged")
  let ?pre = "\<lparr> root = Node 0 [] None 0 [] [] ns' [],
                categorySchema = Some (combined_categories ms), createdAt = now,
                sourceFiles = foldl set_add [] (concat (map sourceFiles ms)) \<rparr>"
  from assms rn have "out = MultiParentLinker similar enabled ?pre"
    by (auto simp: MindmapCombiner_def Let_def split: if_splits)
  moreover have "acyclic_at [] (root ?pre) \<and> links_ok [] (root ?pre)"
    using fresh_root_invariants[OF rn] by simp
  ultimately show ?thesis using linker_preserves[of ?pre similar enabled] by simp
qed

text \<open>
  C3. After the MultiParentLinker has run, no node is its own ancestor along the owning
  chain, and no secondary parent of a node is the node itself, an ancestor or a
  descendant of it. This holds for every input that satisfies the two invariants, and
  so for every tree that the StructureBuilder built, with the flag enabled or disabled,
  and for the merged tree over which the MindmapCombiner runs the linker again. The
  linker is a total function: it changes no id and no owning edge, and a candidate that
  would violate the exclusion is left out, never an error.
\<close>

theorem linker_keeps_acyclic_and_excludes_kin:
  "(acyclic_at [] (root m) \<and> links_ok [] (root m) \<longrightarrow>
      acyclic_at [] (root (MultiParentLinker similar enabled m)) \<and>
      links_ok [] (root (MultiParentLinker similar enabled m)))
   \<and> (StructureBuilder mode schema sources now outline = Inr m \<longrightarrow>
        acyclic_at [] (root (MultiParentLinker similar enabled m)) \<and>
        links_ok [] (root (MultiParentLinker similar enabled m)))
   \<and> (MindmapCombiner similar enabled th now ms = Inr (out, ws) \<longrightarrow>
        acyclic_at [] (root out) \<and> links_ok [] (root out))
   \<and> map node_id (nodes_of (root (MultiParentLinker similar enabled m)))
        = map node_id (nodes_of (root m))"
  using linker_preserves[of m similar enabled]
    StructureBuilder_invariants[of mode schema sources now outline m]
    combiner_invariants[of similar enabled th now ms out ws]
  by (auto simp: MultiParentLinker_def link_node_ids)

lemma example_tagged_ok: "acyclic_at [] (root example_tagged)" "links_ok [] (root example_tagged)"
  by code_simp+

lemma example_tagged_linked:
  "root (MultiParentLinker same_title True example_tagged) =
     Node 0 [] None 0 [] []
       [Node 1 ''Frontend'' (Some ''Tech'') 1 [''ui''] [''a.md'']
          [Node 2 ''React'' None 2 [''ui'', ''State''] [''a.md''] [] [5, 6],
           Node 3 ''State Management'' None 2 [] [''a.md''] [] [6]] [6],
        Node 4 ''Backend'' (Some ''Tech'') 1 [''api''] [''b.md'']
          [Node 5 ''Store'' None 2 [''state''] [''b.md''] [] [],
           Node 6 ''State Management'' None 2 [''UI''] [''b.md''] [] []] []] []"
  by code_simp

lemma example_tagged_linked_ok:
  "acyclic_at [] (root (MultiParentLinker same_title True example_tagged))"
  "links_ok [] (root (MultiParentLinker same_title True example_tagged))"
  by code_simp+

subsection \<open>MindmapCombiner\<close>

































lemma example_combine_ab:
  "MindmapCombiner same_title True 50 7 [example_map_a, example_map_b]
     = Inr (example_combined_ab, [])"
  by code_simp









lemma example_combined_ab_ok:
  "acyclic_at [] (root example_combined_ab)" "links_ok [] (root example_combined_ab)"
  by code_simp+

theorem linker_keeps_acyclic_and_excludes_kin_witness:
  "acyclic_at [] (root example_tagged) \<and> links_ok [] (root example_tagged)
   \<and> acyclic_at [] (root (MultiParentLinker same_title True example_tagged))
   \<and> links_ok [] (root (MultiParentLinker same_title True example_tagged))
   \<and> StructureBuilder High [''Tech''] [] 0 example_outline = Inr example_built
   \<and> acyclic_at [] (root (MultiParentLinker same_title True example_built))
   \<and> links_ok [] (root (MultiParentLinker same_title True example_built))
   \<and> MindmapCombiner same_title True 50 7 [example_map_a, example_map_b]
        = Inr (example_combined_ab, [])
   \<and> acyclic_at [] (root example_combined_ab) \<and> links_ok [] (root example_combined_ab)"
  using linker_keeps_acyclic_and_excludes_kin [where m = example_tagged and similar = same_title
      and enabled = True and mode = High and schema = "[]" and sources = "[]" and now = 7
      and outline = "[]" and th = 50 and ms = "[example_map_a, example_map_b]"
      and out = example_combined_ab and ws = "[]"]
    linker_keeps_acyclic_and_excludes_kin [where m = example_built and similar = same_title
      and enabled = True and mode = High and schema = "[''Tech'']" and sources = "[]"
      and now = 0 and outline = example_outline and th = 50 and ms = "[]"
      and out = example_combined_ab and ws = "[]"]
  by (simp add: example_tagged_ok example_tagged_linked_ok example_built_run
        example_combine_ab example_combined_ab_ok)

subsection \<open>The fuel of deduplication\<close>

text \<open>
  The height of the forest is enough fuel: deduplication never makes a tree higher, and
  with more fuel than the height the result is the same. So \<open>dedup\<close> as the combiner
  calls it merges duplicates on every level of the forest.
\<close>

lemma foldr_max_le: "foldr max xs (0::nat) \<le> h \<longleftrightarrow> (\<forall>x\<in>set xs. x \<le> h)"
  by (induction xs) auto

lemma forest_height_le: "forest_height ns \<le> h \<longleftrightarrow> (\<forall>n\<in>set ns. height n \<le> h)"
  by (simp add: forest_height_def foldr_max_le)

lemma height_children:
  "height n \<le> Suc h \<longleftrightarrow> (\<forall>c\<in>set (children n). height c \<le> h)"
  by (cases n) (simp add: foldr_max_le)

lemma height_pos: "0 < height n"
  by (cases n) simp

lemma height_zero_forest: "\<forall>n\<in>set ns. height n \<le> 0 \<Longrightarrow> ns = []"
  using height_pos by (cases ns) (auto simp: not_less[symmetric])

lemma merge_into_bound:
  assumes "\<forall>y\<in>set acc. P y" and "P x"
    and "\<And>y. y \<in> set acc \<Longrightarrow> P (mrg y x)"
  shows "\<forall>y\<in>set (merge_into mrg dup acc x). P y"
  using assms by (induction acc) auto

lemma foldl_merge_into_bound:
  assumes "\<forall>y\<in>set acc. P y" and "\<forall>x\<in>set ns. P x"
    and "\<And>y x. P y \<Longrightarrow> P x \<Longrightarrow> P (mrg y x)"
  shows "\<forall>y\<in>set (foldl (merge_into mrg dup) acc ns). P y"
  using assms(1,2)
proof (induction ns arbitrary: acc)
  case Nil
  then show ?case by simp
next
  case (Cons n ns)
  have "\<forall>y\<in>set (merge_into mrg dup acc n). P y"
    by (rule merge_into_bound) (use Cons.prems assms(3) in auto)
  from Cons.IH[OF this] Cons.prems(2) show ?case by simp
qed

lemma dedup_height:
  "\<forall>n\<in>set ns. height n \<le> h \<Longrightarrow> \<forall>n\<in>set (dedup fuel th ns). height n \<le> h"
proof (induction fuel arbitrary: ns h)
  case 0
  then show ?case by simp
next
  case (Suc fuel)
  show ?case
  proof (cases h)
    case 0
    with Suc.prems have "ns = []" using height_zero_forest by blast
    then show ?thesis by simp
  next
    case (Suc h')
    have "\<forall>y\<in>set (foldl (merge_into
              (\<lambda>y x. Node (node_id y) (title y) (category y) (depth y)
                        (foldl set_add (node_tags y) (node_tags x))
                        (foldl set_add (sourceRefs y) (sourceRefs x))
                        (dedup fuel th (children y @ children x))
                        (secondaryParents y))
              (duplicate th)) [] ns). height y \<le> Suc h'"
    proof (rule foldl_merge_into_bound)
      fix y x assume "height y \<le> Suc h'" "height x \<le> Suc h'"
      then have "\<forall>c\<in>set (children y @ children x). height c \<le> h'"
        by (auto simp: height_children)
      from Suc.IH[OF this]
      show "height (Node (node_id y) (title y) (category y) (depth y)
                        (foldl set_add (node_tags y) (node_tags x))
                        (foldl set_add (sourceRefs y) (sourceRefs x))
                        (dedup fuel th (children y @ children x))
                        (secondaryParents y)) \<le> Suc h'"
        by (simp add: foldr_max_le)
    qed (use Suc.prems Suc in auto)
    then show ?thesis by (simp add: Suc)
  qed
qed

lemma merge_into_cong:
  assumes "\<And>y. y \<in> set acc \<Longrightarrow> mrg y x = mrg' y x"
  shows "merge_into mrg dup acc x = merge_into mrg' dup acc x"
  using assms by (induction acc) auto

lemma foldl_merge_into_cong:
  assumes "\<forall>y\<in>set acc. P y" and "\<forall>x\<in>set ns. P x"
    and "\<And>y x. P y \<Longrightarrow> P x \<Longrightarrow> P (mrg y x)"
    and "\<And>y x. P y \<Longrightarrow> P x \<Longrightarrow> mrg y x = mrg' y x"
  shows "foldl (merge_into mrg dup) acc ns = foldl (merge_into mrg' dup) acc ns"
  using assms(1,2)
proof (induction ns arbitrary: acc)
  case Nil
  then show ?case by simp
next
  case (Cons n ns)
  have eq: "merge_into mrg dup acc n = merge_into mrg' dup acc n"
    by (rule merge_into_cong) (use Cons.prems assms(4) in auto)
  have "\<forall>y\<in>set (merge_into mrg dup acc n). P y"
    by (rule merge_into_bound) (use Cons.prems assms(3) in auto)
  from Cons.IH[OF this] Cons.prems(2)
  have "foldl (merge_into mrg dup) (merge_into mrg dup acc n) ns
        = foldl (merge_into mrg' dup) (merge_into mrg dup acc n) ns"
    by simp
  then show ?case by (simp add: eq)
qed

lemma dedup_fuel_step:
  "\<forall>n\<in>set ns. height n \<le> fuel \<Longrightarrow> dedup (Suc fuel) th ns = dedup fuel th ns"
proof (induction fuel arbitrary: ns)
  case 0
  then have "ns = []" using height_zero_forest by blast
  then show ?case by simp
next
  case (Suc fuel)
  have "foldl (merge_into
              (\<lambda>y x. Node (node_id y) (title y) (category y) (depth y)
                        (foldl set_add (node_tags y) (node_tags x))
                        (foldl set_add (sourceRefs y) (sourceRefs x))
                        (dedup (Suc fuel) th (children y @ children x))
                        (secondaryParents y))
              (duplicate th)) [] ns
      = foldl (merge_into
              (\<lambda>y x. Node (node_id y) (title y) (category y) (depth y)
                        (foldl set_add (node_tags y) (node_tags x))
                        (foldl set_add (sourceRefs y) (sourceRefs x))
                        (dedup fuel th (children y @ children x))
                        (secondaryParents y))
              (duplicate th)) [] ns"
  proof (rule foldl_merge_into_cong[where P = "\<lambda>n. height n \<le> Suc fuel"])
    fix y x assume yx: "height y \<le> Suc fuel" "height x \<le> Suc fuel"
    then have kids: "\<forall>c\<in>set (children y @ children x). height c \<le> fuel"
      by (auto simp: height_children)
    from dedup_height[OF kids, of "Suc fuel" th]
    show "height (Node (node_id y) (title y) (category y) (depth y)
                        (foldl set_add (node_tags y) (node_tags x))
                        (foldl set_add (sourceRefs y) (sourceRefs x))
                        (dedup (Suc fuel) th (children y @ children x))
                        (secondaryParents y)) \<le> Suc fuel"
      by (simp add: foldr_max_le del: dedup.simps)
    from Suc.IH[OF kids]
    show "Node (node_id y) (title y) (category y) (depth y)
                        (foldl set_add (node_tags y) (node_tags x))
                        (foldl set_add (sourceRefs y) (sourceRefs x))
                        (dedup (Suc fuel) th (children y @ children x))
                        (secondaryParents y)
        = Node (node_id y) (title y) (category y) (depth y)
                        (foldl set_add (node_tags y) (node_tags x))
                        (foldl set_add (sourceRefs y) (sourceRefs x))
                        (dedup fuel th (children y @ children x))
                        (secondaryParents y)"
      by (simp del: dedup.simps)
  qed (use Suc.prems in auto)
  then show ?case by (simp del: foldl_Cons)
qed

lemma dedup_enough_fuel:
  "forest_height ns \<le> fuel \<Longrightarrow> dedup (fuel + extra) th ns = dedup fuel th ns"
proof (induction extra)
  case 0
  then show ?case by simp
next
  case (Suc extra)
  have "\<forall>n\<in>set ns. height n \<le> fuel + extra" using Suc.prems by (auto simp: forest_height_le)
  from dedup_fuel_step[OF this] Suc show ?case by simp
qed

end
